theory Spec2Isabelle
  imports Main "HOL-Library.Sublist" "HOL-Library.Char_ord" "HOL-Library.List_Lexorder"
begin

section \<open>Python values used by the fetcher\<close>

text \<open>
  A Python \<open>str\<close> is a \<^typ>\<open>string\<close>; its characters are the code points below 256.
  A value that is either a \<open>str\<close> or \<open>None\<close> is a \<^typ>\<open>string option\<close>.
  Exceptions are values of \<open>error\<close>, and a call that may raise returns \<open>error + 'a\<close>.
  \<open>OSError\<close> stands for itself and its subclasses (a missing directory, a directory in
  place of a file, a refused permission). \<open>KeyboardInterrupt\<close> is the interrupt of the
  user while a request is under way; it derives from \<open>BaseException\<close>, not from
  \<open>Exception\<close>.
\<close>

datatype error =
    HTTPError nat
  | JSONDecodeError
  | ParseError
  | TypeError
  | AttributeError
  | ConnectionError
  | OSError
  | KeyboardInterrupt

text \<open>Truth value of a \<open>str\<close>-or-\<open>None\<close>: \<open>None\<close> and the empty string are false.\<close>

definition truthy :: "string option \<Rightarrow> bool" where
  "truthy v = (case v of None \<Rightarrow> False | Some s \<Rightarrow> s \<noteq> [])"

text \<open>What an f-string writes for \<open>{v}\<close>: the string itself, or \<open>None\<close> spelled out.\<close>

definition fstr :: "string option \<Rightarrow> string" where
  "fstr v = (case v of None \<Rightarrow> ''None'' | Some s \<Rightarrow> s)"

text \<open>\<open>k in s\<close> on two strings: \<open>k\<close> occurs in \<open>s\<close> as a contiguous run.\<close>

fun str_contains :: "string \<Rightarrow> string \<Rightarrow> bool" where
  "str_contains k [] = (k = [])"
| "str_contains k (c # cs) = (prefix k (c # cs) \<or> str_contains k cs)"

text \<open>\<open>sep.join(xs)\<close>.\<close>

fun join :: "string \<Rightarrow> string list \<Rightarrow> string" where
  "join sep [] = []"
| "join sep [x] = x"
| "join sep (x # y # ys) = x @ sep @ join sep (y # ys)"

text \<open>
  \<open>str.isspace\<close> on one character, for the code points below 256: tab, line feed,
  vertical tab, form feed, carriage return, the four separators 0x1C to 0x1F, space,
  next line (0x85) and no-break space (0xA0).
\<close>

definition isspace :: "char \<Rightarrow> bool" where
  "isspace c = (c \<in> set [CHR 0x09, CHR 0x0A, CHR 0x0B, CHR 0x0C, CHR 0x0D,
                          CHR 0x1C, CHR 0x1D, CHR 0x1E, CHR 0x1F, CHR 0x20,
                          CHR 0x85, CHR 0xA0])"

text \<open>
  \<open>s.split()\<close> with no separator: the maximal runs of non-whitespace characters, in
  order. The first argument is the run being read.
\<close>

fun split_run :: "string \<Rightarrow> string \<Rightarrow> string list" where
  "split_run cur [] = (if cur = [] then [] else [cur])"
| "split_run cur (c # cs) =
     (if isspace c then (if cur = [] then split_run [] cs else cur # split_run [] cs)
      else split_run (cur @ [c]) cs)"

definition str_split :: "string \<Rightarrow> string list" where
  "str_split s = split_run [] s"

section \<open>The element tree\<close>

text \<open>
  An \<open>xml.etree.ElementTree.Element\<close>: its tag, its \<open>text\<close> attribute (\<open>None\<close> when
  the element has no character data before its first child) and its children.
\<close>

datatype element = Element (el_tag: string) (el_text: "string option") (el_children: "element list")

text \<open>\<open>Element.iter()\<close>: the element and everything below it, in document order.\<close>

fun iter :: "element \<Rightarrow> element list" where
  "iter (Element t x cs) = Element t x cs # concat (map iter cs)"

text \<open>
  \<open>e.findall(".//T")\<close> gives the elements strictly below \<open>e\<close> with tag \<open>T\<close>, in document
  order; \<open>e.find(".//T")\<close> is the first of them, or \<open>None\<close>; \<open>e.find("T")\<close> is the
  first child of \<open>e\<close> with tag \<open>T\<close>, or \<open>None\<close>.
\<close>

definition findall_descendants :: "string \<Rightarrow> element \<Rightarrow> element list" where
  "findall_descendants t e = filter (\<lambda>d. el_tag d = t) (concat (map iter (el_children e)))"

definition find_descendant :: "string \<Rightarrow> element \<Rightarrow> element option" where
  "find_descendant t e = (case findall_descendants t e of [] \<Rightarrow> None | d # _ \<Rightarrow> Some d)"

definition find_child :: "string \<Rightarrow> element \<Rightarrow> element option" where
  "find_child t e = find (\<lambda>c. el_tag c = t) (el_children e)"

text \<open>
  The expression \<open>e.find(p).text if e.find(p) is not None else "N/A"\<close>, for a child path
  and for a descendant path. The result is \<open>None\<close> when the node is there without text.
\<close>

definition child_text :: "string \<Rightarrow> element \<Rightarrow> string option" where
  "child_text t e = (case find_child t e of Some c \<Rightarrow> el_text c | None \<Rightarrow> Some ''N/A'')"

definition descendant_text :: "string \<Rightarrow> element \<Rightarrow> string option" where
  "descendant_text t e = (case find_descendant t e of Some d \<Rightarrow> el_text d | None \<Rightarrow> Some ''N/A'')"

text \<open>
  An \<open>Element\<close> used as a condition is true exactly when it has at least one child
  (its length is its number of children); \<open>None\<close> is false.
\<close>

definition element_truthy :: "element option \<Rightarrow> bool" where
  "element_truthy v = (case v of None \<Rightarrow> False | Some e \<Rightarrow> el_children e \<noteq> [])"

section \<open>PubMedFetcher.parse_paper_details\<close>

subsection \<open>Publication date\<close>

definition publication_date :: "element \<Rightarrow> string" where
  "publication_date root =
     (let pub_date_elem = find_descendant ''DateCompleted'' root in
      if element_truthy pub_date_elem then
        (case pub_date_elem of
           None \<Rightarrow> ''N/A''
         | Some d \<Rightarrow>
             (let year = child_text ''Year'' d;
                  month = child_text ''Month'' d;
                  day = child_text ''Day'' d
              in fstr year @ ''-'' @ fstr month @ ''-'' @ fstr day))
      else ''N/A'')"

subsection \<open>Affiliation classifiers\<close>

definition academic_keywords :: "string list" where
  "academic_keywords = [''University'', ''Institute'', ''College'', ''Research'', ''Academy'']"

definition company_keywords :: "string list" where
  "company_keywords = [''Pharma'', ''Biotech'', ''Pharmaceutical'', ''Biotechnology'']"

text \<open>
  \<open>any(keyword in affiliation for keyword in keywords)\<close>. On \<open>None\<close> the first
  membership test raises \<open>TypeError\<close>.
\<close>

definition is_academic :: "string option \<Rightarrow> error + bool" where
  "is_academic affiliation =
     (case affiliation of
        None \<Rightarrow> Inl TypeError
      | Some a \<Rightarrow> Inr (list_ex (\<lambda>keyword. str_contains keyword a) academic_keywords))"

definition is_company :: "string option \<Rightarrow> error + bool" where
  "is_company affiliation =
     (case affiliation of
        None \<Rightarrow> Inl TypeError
      | Some a \<Rightarrow> Inr (list_ex (\<lambda>keyword. str_contains keyword a) company_keywords))"

subsection \<open>The author loop\<close>

text \<open>The variables the loop over the authors updates.\<close>

record author_vars =
  non_academic_authors :: "string list"
  company_affiliations :: "string set"
  corresponding_author_email :: "string option"

definition initial_vars :: author_vars where
  "initial_vars = \<lparr>non_academic_authors = [], company_affiliations = {},
                    corresponding_author_email = None\<rparr>"

definition author_affiliation :: "element \<Rightarrow> string option" where
  "author_affiliation author = descendant_text ''Affiliation'' author"

definition author_name :: "element \<Rightarrow> string" where
  "author_name author =
     (let last_name = child_text ''LastName'' author;
          fore_name = child_text ''ForeName'' author
      in fstr fore_name @ '' '' @ fstr last_name)"

text \<open>\<open>next((word for word in affiliation.split() if "@" in word), None)\<close>, guarded by
  \<open>if affiliation\<close>.\<close>

definition author_email :: "string option \<Rightarrow> string option" where
  "author_email affiliation =
     (if truthy affiliation then
        (case affiliation of
           None \<Rightarrow> None
         | Some a \<Rightarrow> find (\<lambda>word. str_contains ''@'' word) (str_split a))
      else None)"

text \<open>One pass of the loop body. It raises where a classifier raises.\<close>

definition process_author :: "element \<Rightarrow> author_vars \<Rightarrow> error + author_vars" where
  "process_author author vars =
     (let affiliation = author_affiliation author;
          email = author_email affiliation;
          name = author_name author;
          vars1 = (if truthy email
                   then vars\<lparr>corresponding_author_email :=
                          (if \<not> truthy (corresponding_author_email vars) then email
                           else corresponding_author_email vars)\<rparr>
                   else vars)
      in case is_academic affiliation of
           Inl e \<Rightarrow> Inl e
         | Inr academic \<Rightarrow>
             (let vars2 = (if \<not> academic
                           then vars1\<lparr>non_academic_authors := non_academic_authors vars1 @ [name]\<rparr>
                           else vars1)
              in case is_company affiliation of
                   Inl e \<Rightarrow> Inl e
                 | Inr company \<Rightarrow>
                     Inr (if company
                          then (case affiliation of
                                  None \<Rightarrow> vars2
                                | Some a \<Rightarrow> vars2\<lparr>company_affiliations :=
                                                     insert a (company_affiliations vars2)\<rparr>)
                          else vars2)))"

fun author_loop :: "element list \<Rightarrow> author_vars \<Rightarrow> error + author_vars" where
  "author_loop [] vars = Inr vars"
| "author_loop (author # rest) vars =
     (case process_author author vars of
        Inl e \<Rightarrow> Inl e
      | Inr vars' \<Rightarrow> author_loop rest vars')"

text \<open>The loop over \<open>root.findall(".//Author")\<close>, from the initial values of its variables.\<close>

definition parse_authors :: "element \<Rightarrow> error + author_vars" where
  "parse_authors root = author_loop (findall_descendants ''Author'' root) initial_vars"

subsection \<open>The parsed record\<close>

text \<open>
  The returned dictionary, as the list of its items in insertion order. A value is a
  \<open>str\<close> or \<open>None\<close>. The argument \<open>xml_data\<close> is the outcome of \<open>ET.fromstring\<close> on the
  response text: \<open>None\<close> when the text is not well-formed XML, else the root element.
  Iterating over a Python set has no specified order: \<open>set_order\<close> is the order in which
  \<open>"; ".join\<close> reads the company affiliations.
\<close>

type_synonym parsed_record = "(string \<times> string option) list"

definition parse_paper_details ::
  "(string set \<Rightarrow> string list) \<Rightarrow> element option \<Rightarrow> error + parsed_record" where
  "parse_paper_details set_order xml_data =
     (case xml_data of
        None \<Rightarrow> Inl ParseError
      | Some root \<Rightarrow>
          (let pubmed_id = descendant_text ''PMID'' root;
               title = descendant_text ''ArticleTitle'' root;
               date = publication_date root
           in case parse_authors root of
                Inl e \<Rightarrow> Inl e
              | Inr vars \<Rightarrow>
                  Inr [(''PubmedID'', pubmed_id),
                       (''Title'', title),
                       (''Publication Date'', Some date),
                       (''Non-academic Author(s)'',
                          Some (if non_academic_authors vars \<noteq> []
                                then join ''; '' (non_academic_authors vars) else ''None'')),
                       (''Company Affiliation(s)'',
                          Some (if company_affiliations vars \<noteq> {}
                                then join ''; '' (set_order (company_affiliations vars))
                                else ''None'')),
                       (''Corresponding Author Email'',
                          Some (if truthy (corresponding_author_email vars)
                                then fstr (corresponding_author_email vars) else ''None''))]))"

text \<open>The keys of that dictionary, in the order it is built.\<close>

definition field_names :: "string list" where
  "field_names = [''PubmedID'', ''Title'', ''Publication Date'', ''Non-academic Author(s)'',
                  ''Company Affiliation(s)'', ''Corresponding Author Email'']"

section \<open>The search and fetch clients\<close>

text \<open>
  A decoded JSON value, as \<open>response.json()\<close> returns it. A dictionary is the list of its
  items; a key is looked up with \<^const>\<open>map_of\<close>.
\<close>

datatype json =
    JNull
  | JBool bool
  | JNumber int
  | JString string
  | JArray "json list"
  | JObject "(string \<times> json) list"

text \<open>
  What \<open>requests.get\<close> returns: the status code and the body. The body of a search
  response is the outcome of decoding it as JSON (\<open>None\<close> when it is not JSON); the body
  of a fetch response is the outcome of \<open>ET.fromstring\<close> on its text.
\<close>

record json_response =
  status_code :: nat
  json_body :: "json option"

record xml_response =
  xml_status_code :: nat
  xml_text :: "element option"

text \<open>
  The service behind the two endpoints: \<open>esearch\<close> answers a term and a \<open>retmax\<close>,
  \<open>efetch\<close> answers an identifier. \<open>Inl\<close> is an exception raised inside \<open>requests.get\<close>:
  a failure of the connection, or the interrupt of the user.
\<close>

record service =
  esearch :: "string \<Rightarrow> int \<Rightarrow> error + json_response"
  efetch :: "json \<Rightarrow> error + xml_response"

text \<open>\<open>response.raise_for_status()\<close> raises for the codes 400 to 599.\<close>

definition raise_for_status :: "nat \<Rightarrow> error + unit" where
  "raise_for_status code = (if 400 \<le> code \<and> code < 600 then Inl (HTTPError code) else Inr ())"

text \<open>\<open>d.get(key, default)\<close>; only a dictionary has the method.\<close>

definition dict_get :: "json \<Rightarrow> string \<Rightarrow> json \<Rightarrow> error + json" where
  "dict_get d key dflt =
     (case d of
        JObject items \<Rightarrow> Inr (case map_of items key of Some v \<Rightarrow> v | None \<Rightarrow> dflt)
      | _ \<Rightarrow> Inl AttributeError)"

definition fetch_paper_ids :: "service \<Rightarrow> string \<Rightarrow> int \<Rightarrow> error + json" where
  "fetch_paper_ids net search_term max_results =
     (case esearch net search_term max_results of
        Inl e \<Rightarrow> Inl e
      | Inr response \<Rightarrow>
          (case raise_for_status (status_code response) of
             Inl e \<Rightarrow> Inl e
           | Inr _ \<Rightarrow>
               (case json_body response of
                  None \<Rightarrow> Inl JSONDecodeError
                | Some data \<Rightarrow>
                    (case dict_get data ''esearchresult'' (JObject []) of
                       Inl e \<Rightarrow> Inl e
                     | Inr result \<Rightarrow> dict_get result ''idlist'' (JArray [])))))"

text \<open>The two-second sleep after the call changes no value and is left out.\<close>

definition fetch_paper_details ::
  "service \<Rightarrow> (string set \<Rightarrow> string list) \<Rightarrow> json \<Rightarrow> error + parsed_record" where
  "fetch_paper_details net set_order pubmed_id =
     (case efetch net pubmed_id of
        Inl e \<Rightarrow> Inl e
      | Inr response \<Rightarrow>
          (case raise_for_status (xml_status_code response) of
             Inl e \<Rightarrow> Inl e
           | Inr _ \<Rightarrow> parse_paper_details set_order (xml_text response)))"

section \<open>fetch\_details\_concurrently\<close>

text \<open>
  \<open>Pool(processes=2).map(f, ids)\<close> cuts the identifiers into batches of
  \<open>ceil(len(ids) / 8)\<close>, runs \<open>list(map(f, batch))\<close> on each batch in a worker, and puts
  the batch results back at their positions. A batch stops at its first exception. When
  batches fail, the exception raised is that of the failed batch which reported first;
  \<open>sched\<close> chooses it.
\<close>

definition chunksize :: "nat \<Rightarrow> nat" where
  "chunksize n = (if n mod 8 \<noteq> 0 then n div 8 + 1 else n div 8)"

function get_tasks :: "nat \<Rightarrow> 'a list \<Rightarrow> 'a list list" where
  "get_tasks n xs = (if n = 0 \<or> xs = [] then [] else take n xs # get_tasks n (drop n xs))"
  by pat_completeness auto
termination
  by (relation "measure (\<lambda>(n, xs). length xs)") auto

fun mapstar :: "('a \<Rightarrow> error + 'b) \<Rightarrow> 'a list \<Rightarrow> error + 'b list" where
  "mapstar f [] = Inr []"
| "mapstar f (x # xs) =
     (case f x of
        Inl e \<Rightarrow> Inl e
      | Inr y \<Rightarrow> (case mapstar f xs of Inl e \<Rightarrow> Inl e | Inr ys \<Rightarrow> Inr (y # ys)))"

definition failures :: "(error + 'b) list \<Rightarrow> error list" where
  "failures outcomes = List.map_filter (\<lambda>r. case r of Inl e \<Rightarrow> Some e | Inr _ \<Rightarrow> None) outcomes"

definition successes :: "(error + 'b) list \<Rightarrow> 'b list" where
  "successes outcomes = List.map_filter (\<lambda>r. case r of Inl _ \<Rightarrow> None | Inr y \<Rightarrow> Some y) outcomes"

definition fetch_details_concurrently ::
  "nat \<Rightarrow> ('a \<Rightarrow> error + 'b) \<Rightarrow> 'a list \<Rightarrow> error + 'b list" where
  "fetch_details_concurrently sched fetch pubmed_ids =
     (let batches = get_tasks (chunksize (length pubmed_ids)) pubmed_ids;
          outcomes = map (mapstar fetch) batches
      in if failures outcomes = [] then Inr (concat (successes outcomes))
         else Inl (failures outcomes ! (sched mod length (failures outcomes))))"

section \<open>write\_csv\<close>

text \<open>
  A file is the list of its CSV rows, a row the list of its cells. The file system maps a
  path to what is there: nothing (and a file can be created), a file that can be opened
  for appending, or something that cannot be opened for appending. The last is a
  directory or a read-only file, which \<open>os.path.exists\<close> sees (\<open>Unwritable True\<close>), or a
  path under a directory that is not there, which it does not see (\<open>Unwritable False\<close>).

  \<open>pd.DataFrame(data)\<close> takes as columns the keys of the records in order of first
  appearance. \<open>to_csv\<close> opens the path for appending, which raises \<open>OSError\<close> and writes
  nothing when the path cannot be opened; it then writes the column names as the header
  row when asked to, and one row per record, an absent or \<open>None\<close> value as an empty cell.
\<close>

type_synonym csv_row = "string list"

datatype entry = File "csv_row list" | Unwritable bool

type_synonym filesystem = "string \<rightharpoonup> entry"

definition columns :: "parsed_record list \<Rightarrow> string list" where
  "columns data = foldl (\<lambda>seen k. if k \<in> set seen then seen else seen @ [k]) []
                    (concat (map (map fst) data))"

definition csv_cells :: "string list \<Rightarrow> parsed_record \<Rightarrow> csv_row" where
  "csv_cells cols r = map (\<lambda>c. case map_of r c of Some (Some s) \<Rightarrow> s | _ \<Rightarrow> []) cols"

definition file_exists :: "filesystem \<Rightarrow> string \<Rightarrow> bool" where
  "file_exists fs filename =
     (case fs filename of
        None \<Rightarrow> False
      | Some (File _) \<Rightarrow> True
      | Some (Unwritable there) \<Rightarrow> there)"

definition to_csv ::
  "filesystem \<Rightarrow> string \<Rightarrow> bool \<Rightarrow> parsed_record list \<Rightarrow> error + filesystem" where
  "to_csv fs filename header data =
     (let cols = columns data;
          written = (if header then [cols] else []) @ map (csv_cells cols) data
      in case fs filename of
           Some (Unwritable _) \<Rightarrow> Inl OSError
         | Some (File rows) \<Rightarrow> Inr (fs(filename \<mapsto> File (rows @ written)))
         | None \<Rightarrow> Inr (fs(filename \<mapsto> File written)))"

definition write_csv :: "filesystem \<Rightarrow> string \<Rightarrow> parsed_record list \<Rightarrow> error + filesystem" where
  "write_csv fs filename data = to_csv fs filename (\<not> file_exists fs filename) data"

section \<open>The entry point\<close>

record args =
  args_query :: string
  args_file :: string
  args_max :: int
  args_debug :: bool

text \<open>
  \<open>len(paper_ids)\<close> and the iteration of \<open>pool.map\<close> over \<open>paper_ids\<close>: a list gives its
  elements, a string its characters, a dictionary its keys; anything else has no length.
\<close>

definition py_elements :: "json \<Rightarrow> error + json list" where
  "py_elements v =
     (case v of
        JArray xs \<Rightarrow> Inr xs
      | JString s \<Rightarrow> Inr (map (\<lambda>c. JString [c]) s)
      | JObject items \<Rightarrow> Inr (map (\<lambda>(k, _). JString k) items)
      | _ \<Rightarrow> Inl TypeError)"

text \<open>The body of the \<open>try\<close>: search, fetch and parse, write. Each step may raise.\<close>

definition main_try ::
  "service \<Rightarrow> (string set \<Rightarrow> string list) \<Rightarrow> nat \<Rightarrow> args \<Rightarrow> filesystem \<Rightarrow> error + filesystem" where
  "main_try net set_order sched a fs =
     (case fetch_paper_ids net (args_query a) (args_max a) of
        Inl e \<Rightarrow> Inl e
      | Inr paper_ids \<Rightarrow>
          (case py_elements paper_ids of
             Inl e \<Rightarrow> Inl e
           | Inr ids \<Rightarrow>
               (case fetch_details_concurrently sched (fetch_paper_details net set_order) ids of
                  Inl e \<Rightarrow> Inl e
                | Inr results \<Rightarrow> write_csv fs (args_file a) results)))"

text \<open>
  The handler is \<open>except Exception\<close>: it catches every exception of the model but the
  interrupt of the user.
\<close>

fun is_Exception :: "error \<Rightarrow> bool" where
  "is_Exception (HTTPError _) = True"
| "is_Exception JSONDecodeError = True"
| "is_Exception ParseError = True"
| "is_Exception TypeError = True"
| "is_Exception AttributeError = True"
| "is_Exception ConnectionError = True"
| "is_Exception OSError = True"
| "is_Exception KeyboardInterrupt = False"

text \<open>
  What a run leaves behind: the files, what the handler logged and printed (\<open>Printed e\<close>
  is the line \<open>Error: \<close> followed by the message of \<open>e\<close>), and the exception that left
  \<open>main\<close>, if any. The process exits with 0 when \<open>main\<close> returns, and with another
  status when an exception leaves it.
\<close>

datatype event = Logged error | Printed error

record run =
  files :: filesystem
  events :: "event list"
  uncaught :: "error option"

datatype exit_status = Exit_zero | Exit_nonzero

definition exit_code :: "run \<Rightarrow> exit_status" where
  "exit_code r = (case uncaught r of None \<Rightarrow> Exit_zero | Some _ \<Rightarrow> Exit_nonzero)"

definition main ::
  "service \<Rightarrow> (string set \<Rightarrow> string list) \<Rightarrow> nat \<Rightarrow> args \<Rightarrow> filesystem \<Rightarrow> run" where
  "main net set_order sched a fs =
     (case main_try net set_order sched a fs of
        Inr fs' \<Rightarrow> \<lparr>files = fs', events = [], uncaught = None\<rparr>
      | Inl e \<Rightarrow>
          if is_Exception e
          then \<lparr>files = fs, events = [Logged e, Printed e], uncaught = None\<rparr>
          else \<lparr>files = fs, events = [], uncaught = Some e\<rparr>)"

section \<open>The specification's wording\<close>

text \<open>
  The properties below are stated against these definitions, which follow the words of
  the specification and not the code: a keyword occurs in an affiliation as a substring
  (\<^const>\<open>sublist\<close>); a candidate email is a whitespace-separated token with an \<open>@\<close>.
\<close>

definition contains_any :: "string list \<Rightarrow> string \<Rightarrow> bool" where
  "contains_any keywords s = (\<exists>k\<in>set keywords. sublist k s)"

definition spec_non_academic :: "element \<Rightarrow> bool" where
  "spec_non_academic author =
     (case author_affiliation author of
        None \<Rightarrow> False
      | Some s \<Rightarrow> \<not> contains_any academic_keywords s)"

definition spec_company :: "element \<Rightarrow> string set" where
  "spec_company author =
     (case author_affiliation author of
        None \<Rightarrow> {}
      | Some s \<Rightarrow> if contains_any company_keywords s then {s} else {})"

definition email_tokens :: "string \<Rightarrow> string list" where
  "email_tokens s = filter (\<lambda>word. CHR ''@'' \<in> set word) (str_split s)"

definition candidate_emails :: "element list \<Rightarrow> string list" where
  "candidate_emails authors =
     concat (map (\<lambda>a. case author_affiliation a of None \<Rightarrow> [] | Some s \<Rightarrow> email_tokens s)
               authors)"

text \<open>The first node with the tag is absent, or it carries text.\<close>

definition absent_or_text :: "string \<Rightarrow> element \<Rightarrow> bool" where
  "absent_or_text t root =
     (case find_descendant t root of None \<Rightarrow> True | Some d \<Rightarrow> el_text d \<noteq> None)"



section \<open>Sample inputs\<close>

text \<open>
  A record with a date that has no day, and three authors: one at a company with an
  email, one at a university that is also a company with a later email, one with no
  affiliation.
\<close>

definition sample_record :: element where
  "sample_record =
     Element ''PubmedArticle'' None
       [Element ''PMID'' (Some ''123'') [],
        Element ''DateCompleted'' None
          [Element ''Year'' (Some ''2020'') [], Element ''Month'' (Some ''05'') []],
        Element ''ArticleTitle'' (Some ''A study'') [],
        Element ''AuthorList'' None
          [Element ''Author'' None
             [Element ''LastName'' (Some ''Doe'') [], Element ''ForeName'' (Some ''Jane'') [],
              Element ''AffiliationInfo'' None
                [Element ''Affiliation'' (Some ''Acme Biotech Inc. jane@acme.com'') []]],
           Element ''Author'' None
             [Element ''LastName'' (Some ''Roe'') [], Element ''ForeName'' (Some ''Rick'') [],
              Element ''AffiliationInfo'' None
                [Element ''Affiliation'' (Some ''University of Pharma, rick@u.edu'') []]],
           Element ''Author'' None
             [Element ''LastName'' (Some ''Poe'') []]]]"

text \<open>What the loop over its authors and the whole parse give for it.\<close>

definition sample_vars :: author_vars where
  "sample_vars =
     \<lparr>non_academic_authors = [''Jane Doe'', ''N/A Poe''],
      company_affiliations =
        {''University of Pharma, rick@u.edu'', ''Acme Biotech Inc. jane@acme.com''},
      corresponding_author_email = Some ''jane@acme.com''\<rparr>"

definition sample_parsed :: parsed_record where
  "sample_parsed =
     [(''PubmedID'', Some ''123''),
      (''Title'', Some ''A study''),
      (''Publication Date'', Some ''2020-05-N/A''),
      (''Non-academic Author(s)'', Some ''Jane Doe; N/A Poe''),
      (''Company Affiliation(s)'',
         Some ''Acme Biotech Inc. jane@acme.com; University of Pharma, rick@u.edu''),
      (''Corresponding Author Email'', Some ''jane@acme.com'')]"

text \<open>A record whose \<open>DateCompleted\<close> node is there and has no child.\<close>

definition childless_date_record :: element where
  "childless_date_record =
     Element ''PubmedArticle'' None
       [Element ''PMID'' (Some ''7'') [], Element ''DateCompleted'' None []]"

text \<open>A record whose \<open>PMID\<close> node is there and has no text.\<close>

definition textless_pmid_record :: element where
  "textless_pmid_record = Element ''PubmedArticle'' None [Element ''PMID'' None []]"

text \<open>A record with one author, whose \<open>Affiliation\<close> node has no text.\<close>

definition textless_affiliation_record :: element where
  "textless_affiliation_record =
     Element ''PubmedArticle'' None
       [Element ''PMID'' (Some ''9'') [],
        Element ''AuthorList'' None
          [Element ''Author'' None
             [Element ''LastName'' (Some ''Doe'') [],
              Element ''AffiliationInfo'' None [Element ''Affiliation'' None []]]]]"

text \<open>
  The search response that carries the given identifiers, and a service with three
  records that answers a search with the first \<open>retmax\<close> of their identifiers.
\<close>

definition search_reply :: "string list \<Rightarrow> json" where
  "search_reply ids = JObject [(''esearchresult'',
                        JObject [(''count'', JString ''3''),
                                 (''idlist'', JArray (map JString ids))])]"

definition sample_service :: service where
  "sample_service =
     \<lparr>esearch = (\<lambda>term retmax.
         Inr \<lparr>status_code = 200,
              json_body = Some (search_reply (take (nat retmax) [''1'', ''2'', ''3'']))\<rparr>),
      efetch = (\<lambda>pubmed_id. Inr \<lparr>xml_status_code = 200, xml_text = Some sample_record\<rparr>)\<rparr>"

text \<open>A service whose search works and whose fetch answers 500.\<close>

definition failing_service :: service where
  "failing_service =
     \<lparr>esearch = (\<lambda>term retmax.
         Inr \<lparr>status_code = 200,
              json_body = Some (search_reply (take (nat retmax) [''1'', ''2'', ''3'']))\<rparr>),
      efetch = (\<lambda>pubmed_id. Inr \<lparr>xml_status_code = 500, xml_text = None\<rparr>)\<rparr>"

text \<open>A service whose search is interrupted by the user.\<close>

definition interrupted_service :: service where
  "interrupted_service =
     \<lparr>esearch = (\<lambda>term retmax. Inl KeyboardInterrupt),
      efetch = (\<lambda>pubmed_id. Inr \<lparr>xml_status_code = 200, xml_text = Some sample_record\<rparr>)\<rparr>"

text \<open>The row of the sample record in the output file.\<close>

definition sample_row :: csv_row where
  "sample_row =
     [''123'', ''A study'', ''2020-05-N/A'', ''Jane Doe; N/A Poe'',
      ''Acme Biotech Inc. jane@acme.com; University of Pharma, rick@u.edu'', ''jane@acme.com'']"

definition sample_args :: args where
  "sample_args = \<lparr>args_query = ''cancer'', args_file = ''results.csv'', args_max = 2,
                   args_debug = False\<rparr>"

text \<open>A fetch-and-parse stub that gives record \<open>N\<close> the title \<open>T\<close> followed by \<open>N\<close>.\<close>

definition title_stub :: "string \<Rightarrow> error + parsed_record" where
  "title_stub n = Inr [(''Title'', Some (''T'' @ n))]"

section \<open>Auxiliary facts\<close>

text \<open>The split gives the maximal runs without whitespace, and loses nothing else.\<close>

lemma split_run_tokens:
  "\<forall>c\<in>set cur. \<not> isspace c \<Longrightarrow> t \<in> set (split_run cur s) \<Longrightarrow>
     t \<noteq> [] \<and> (\<forall>c\<in>set t. \<not> isspace c)"
proof (induction s arbitrary: cur)
  case Nil
  then show ?case by (auto split: if_splits)
next
  case (Cons c s)
  show ?case
  proof (cases "isspace c")
    case True
    with Cons.prems Cons.IH [of "[]"] show ?thesis by (auto split: if_splits)
  next
    case False
    with Cons.prems Cons.IH [of "cur @ [c]"] show ?thesis by auto
  qed
qed

lemma split_run_concat: "concat (split_run cur s) = cur @ filter (\<lambda>c. \<not> isspace c) s"
  by (induction s arbitrary: cur) simp_all

lemma str_split_tokens: "t \<in> set (str_split s) \<Longrightarrow> t \<noteq> [] \<and> (\<forall>c\<in>set t. \<not> isspace c)"
  using split_run_tokens [of "[]" t s] by (simp add: str_split_def)

lemma str_split_concat: "concat (str_split s) = filter (\<lambda>c. \<not> isspace c) s"
  by (simp add: str_split_def split_run_concat)

lemma str_split_sample:
  "str_split ''  Acme Inc.,  x@acme.com '' = [''Acme'', ''Inc.,'', ''x@acme.com'']"
  by (simp add: str_split_def isspace_def)

lemma iter_sample:
  "map el_tag (iter (Element ''a'' None [Element ''b'' None [Element ''c'' None []], Element ''d'' None []])) =
     [''a'', ''b'', ''c'', ''d'']"
  by simp

lemma str_contains_sublist: "str_contains k s = sublist k s"
  by (induction s) (simp_all add: sublist_Cons_right)

lemma str_contains_at: "str_contains ''@'' w = (CHR ''@'' \<in> set w)"
  by (induction w) auto

lemma str_contains_at_fun: "str_contains ''@'' = (\<lambda>w. CHR ''@'' \<in> set w)"
  by (rule ext) (rule str_contains_at)

lemma is_academic_Some: "is_academic (Some a) = Inr (contains_any academic_keywords a)"
  by (simp add: is_academic_def contains_any_def list_ex_iff str_contains_sublist)

lemma is_company_Some: "is_company (Some a) = Inr (contains_any company_keywords a)"
  by (simp add: is_company_def contains_any_def list_ex_iff str_contains_sublist)

lemma find_filter: "find P xs = (case filter P xs of [] \<Rightarrow> None | x # _ \<Rightarrow> Some x)"
  by (induction xs) simp_all

lemma author_email_tokens:
  "author_email (Some s) = (case email_tokens s of [] \<Rightarrow> None | e # _ \<Rightarrow> Some e)"
proof (cases "s = []")
  case True
  then show ?thesis by (simp add: author_email_def truthy_def email_tokens_def str_split_def)
next
  case False
  then show ?thesis
    by (simp add: author_email_def truthy_def email_tokens_def find_filter [of _ "str_split s"] str_contains_at_fun)
qed

lemma email_tokens_nonempty: "e \<in> set (email_tokens s) \<Longrightarrow> e \<noteq> []"
  by (auto simp: email_tokens_def)

lemma truthy_author_email: "truthy (author_email (Some s)) = (email_tokens s \<noteq> [])"
proof (cases "email_tokens s")
  case Nil
  then show ?thesis by (simp add: author_email_tokens truthy_def)
next
  case (Cons e es)
  then have "e \<noteq> []" using email_tokens_nonempty [of e s] by simp
  with Cons show ?thesis by (simp add: author_email_tokens truthy_def)
qed

lemma process_author_None:
  "author_affiliation author = None \<Longrightarrow> process_author author vars = Inl TypeError"
  by (simp add: process_author_def is_academic_def Let_def)

lemma process_author_Some:
  assumes "author_affiliation author = Some a"
  shows "process_author author vars =
    Inr \<lparr>non_academic_authors =
            (if contains_any academic_keywords a then non_academic_authors vars
             else non_academic_authors vars @ [author_name author]),
          company_affiliations =
            (if contains_any company_keywords a then insert a (company_affiliations vars)
             else company_affiliations vars),
          corresponding_author_email =
            (if email_tokens a \<noteq> [] \<and> \<not> truthy (corresponding_author_email vars)
             then Some (hd (email_tokens a)) else corresponding_author_email vars)\<rparr>"
proof (cases "email_tokens a")
  case Nil
  then have "author_email (Some a) = None" by (simp add: author_email_tokens)
  with assms Nil show ?thesis
    by (cases vars)
       (simp add: process_author_def Let_def is_academic_Some is_company_Some truthy_def)
next
  case (Cons e es)
  then have "e \<noteq> []" using email_tokens_nonempty [of e a] by simp
  moreover from Cons have "author_email (Some a) = Some e" by (simp add: author_email_tokens)
  ultimately show ?thesis using assms Cons
    by (cases vars)
       (simp add: process_author_def Let_def is_academic_Some is_company_Some truthy_def)
qed

lemma candidate_emails_Cons:
  "candidate_emails (a # authors) =
     (case author_affiliation a of None \<Rightarrow> [] | Some s \<Rightarrow> email_tokens s) @ candidate_emails authors"
  by (simp add: candidate_emails_def)

lemma author_loop_error: "author_loop authors vars = Inl e \<Longrightarrow> e = TypeError"
proof (induction authors arbitrary: vars)
  case Nil
  then show ?case by simp
next
  case (Cons a authors)
  show ?case
  proof (cases "author_affiliation a")
    case None
    with Cons.prems show ?thesis by (simp add: process_author_None)
  next
    case (Some s)
    with Cons.prems Cons.IH show ?thesis by (simp add: process_author_Some)
  qed
qed

lemma author_loop_None:
  "a \<in> set authors \<Longrightarrow> author_affiliation a = None \<Longrightarrow> author_loop authors vars = Inl TypeError"
proof (induction authors arbitrary: vars)
  case Nil
  then show ?case by simp
next
  case (Cons b authors)
  show ?case
  proof (cases "author_affiliation b")
    case None
    then show ?thesis by (simp add: process_author_None)
  next
    case (Some s)
    with Cons.prems have "a \<in> set authors" by auto
    with Cons.IH Cons.prems(2) Some show ?thesis by (simp add: process_author_Some)
  qed
qed

lemma author_loop_affiliations:
  "author_loop authors vars = Inr vars' \<Longrightarrow> a \<in> set authors \<Longrightarrow> author_affiliation a \<noteq> None"
  using author_loop_None [of a authors vars] by auto

lemma author_loop_classes:
  "author_loop authors vars = Inr vars' \<Longrightarrow>
     non_academic_authors vars' = non_academic_authors vars @ map author_name (filter spec_non_academic authors) \<and>
     company_affiliations vars' = company_affiliations vars \<union> (\<Union>a\<in>set authors. spec_company a)"
proof (induction authors arbitrary: vars)
  case Nil
  then show ?case by simp
next
  case (Cons a authors)
  show ?case
  proof (cases "author_affiliation a")
    case None
    with Cons.prems show ?thesis by (simp add: process_author_None)
  next
    case (Some s)
    with Cons.prems Cons.IH show ?thesis
      by (auto simp: process_author_Some spec_non_academic_def spec_company_def split: if_splits)
  qed
qed

lemma author_loop_email:
  "author_loop authors vars = Inr vars' \<Longrightarrow> corresponding_author_email vars \<noteq> Some [] \<Longrightarrow>
     corresponding_author_email vars' =
       (case corresponding_author_email vars of
          Some e \<Rightarrow> Some e
        | None \<Rightarrow> (case candidate_emails authors of [] \<Rightarrow> None | e # _ \<Rightarrow> Some e))"
proof (induction authors arbitrary: vars)
  case Nil
  then show ?case by (simp add: candidate_emails_def split: option.splits)
next
  case (Cons a authors)
  show ?case
  proof (cases "author_affiliation a")
    case None
    with Cons.prems show ?thesis by (simp add: process_author_None)
  next
    case (Some s)
    obtain vars1 where step: "process_author a vars = Inr vars1"
      and rest: "author_loop authors vars1 = Inr vars'"
      using Cons.prems(1) by (auto split: sum.splits)
    have mail1: "corresponding_author_email vars1 =
        (if email_tokens s \<noteq> [] \<and> \<not> truthy (corresponding_author_email vars)
         then Some (hd (email_tokens s)) else corresponding_author_email vars)"
      using step by (auto simp: process_author_Some [OF Some])
    have hd_ok: "email_tokens s \<noteq> [] \<Longrightarrow> hd (email_tokens s) \<noteq> []"
      using email_tokens_nonempty [of "hd (email_tokens s)" s] by simp
    have inv: "corresponding_author_email vars1 \<noteq> Some []"
      using mail1 Cons.prems(2) hd_ok by (simp split: if_splits)
    note IH = Cons.IH [OF rest inv]
    show ?thesis
    proof (cases "corresponding_author_email vars")
      case None
      then show ?thesis using IH mail1 Some
        by (cases "email_tokens s") (simp_all add: candidate_emails_Cons truthy_def)
    next
      case (Some e)
      with Cons.prems(2) have "e \<noteq> []" by simp
      with Some IH mail1 show ?thesis by (simp add: truthy_def)
    qed
  qed
qed


lemmas tree_defs = findall_descendants_def find_descendant_def descendant_text_def
  child_text_def find_child_def element_truthy_def

lemmas author_defs = parse_authors_def initial_vars_def process_author_def
  author_affiliation_def author_name_def author_email_def truthy_def fstr_def
  str_split_def isspace_def is_academic_def is_company_def academic_keywords_def
  company_keywords_def

lemma contains_any_code: "contains_any keywords s = list_ex (\<lambda>k. str_contains k s) keywords"
  by (simp add: contains_any_def list_ex_iff str_contains_sublist)

lemma publication_date_absent:
  "find_descendant ''DateCompleted'' root = None \<Longrightarrow> publication_date root = ''N/A''"
  by (simp add: publication_date_def element_truthy_def)

lemma publication_date_children:
  "find_descendant ''DateCompleted'' root = Some d \<Longrightarrow> el_children d \<noteq> [] \<Longrightarrow>
     publication_date root =
       fstr (child_text ''Year'' d) @ ''-'' @ fstr (child_text ''Month'' d) @ ''-'' @
       fstr (child_text ''Day'' d)"
  by (simp add: publication_date_def element_truthy_def)

lemma publication_date_sample: "publication_date sample_record = ''2020-05-N/A''"
  by (simp add: sample_record_def publication_date_def tree_defs fstr_def)

lemma parse_authors_sample: "parse_authors sample_record = Inr sample_vars"
  by (simp add: sample_record_def sample_vars_def tree_defs author_defs)

lemma parse_sample_record:
  "parse_paper_details sorted_list_of_set (Some sample_record) = Inr sample_parsed"
  by code_simp

section \<open>The claims\<close>

text \<open>
  Claim C1 (publication date). The source builds the date from the \<open>Year\<close>, \<open>Month\<close> and
  \<open>Day\<close> children only when the \<open>DateCompleted\<close> node passes its truth test, and an
  element without children is false. For the record whose \<open>DateCompleted\<close> node is
  there with no child, each of the three child texts reads \<open>N/A\<close>, yet the date of the
  parsed record is the single \<open>N/A\<close> and not \<open>N/A-N/A-N/A\<close>.
\<close>
theorem childless_DateCompleted_date:
  "find_descendant ''DateCompleted'' childless_date_record = Some (Element ''DateCompleted'' None [])
   \<and> child_text ''Year'' (Element ''DateCompleted'' None []) = Some ''N/A''
   \<and> child_text ''Month'' (Element ''DateCompleted'' None []) = Some ''N/A''
   \<and> child_text ''Day'' (Element ''DateCompleted'' None []) = Some ''N/A''
   \<and> parse_paper_details sorted_list_of_set (Some childless_date_record) =
       Inr [(''PubmedID'', Some ''7''), (''Title'', Some ''N/A''),
            (''Publication Date'', Some ''N/A''),
            (''Non-academic Author(s)'', Some ''None''),
            (''Company Affiliation(s)'', Some ''None''),
            (''Corresponding Author Email'', Some ''None'')]"
  by (simp add: childless_date_record_def parse_paper_details_def publication_date_def
        tree_defs author_defs)

text \<open>
  Claim C2 (fields of a parsed record). A parsed record has six fields, not five, and the
  identifier is \<open>None\<close> when the \<open>PMID\<close> node is there without text: the record below
  shows both. What holds for every parsed record: its keys are the six field names in
  their fixed order; the date, the non-academic authors, the company affiliations and the
  email are strings; the identifier and the title are strings when the \<open>PMID\<close> and the
  \<open>ArticleTitle\<close> node are absent or carry text.
\<close>
theorem parsed_record_fields:
  assumes "parse_paper_details set_order (Some root) = Inr r"
  shows "map fst r = field_names
    \<and> length r = 6
    \<and> (\<exists>s. map_of r ''Publication Date'' = Some (Some s))
    \<and> (\<exists>s. map_of r ''Non-academic Author(s)'' = Some (Some s))
    \<and> (\<exists>s. map_of r ''Company Affiliation(s)'' = Some (Some s))
    \<and> (\<exists>s. map_of r ''Corresponding Author Email'' = Some (Some s))
    \<and> (absent_or_text ''PMID'' root \<longrightarrow> (\<exists>s. map_of r ''PubmedID'' = Some (Some s)))
    \<and> (absent_or_text ''ArticleTitle'' root \<longrightarrow> (\<exists>s. map_of r ''Title'' = Some (Some s)))"
proof -
  obtain vars where "parse_authors root = Inr vars"
    using assms by (auto simp: parse_paper_details_def Let_def split: sum.splits)
  with assms have r: "r =
      [(''PubmedID'', descendant_text ''PMID'' root),
       (''Title'', descendant_text ''ArticleTitle'' root),
       (''Publication Date'', Some (publication_date root)),
       (''Non-academic Author(s)'',
          Some (if non_academic_authors vars \<noteq> []
                then join ''; '' (non_academic_authors vars) else ''None'')),
       (''Company Affiliation(s)'',
          Some (if company_affiliations vars \<noteq> {}
                then join ''; '' (set_order (company_affiliations vars)) else ''None'')),
       (''Corresponding Author Email'',
          Some (if truthy (corresponding_author_email vars)
                then fstr (corresponding_author_email vars) else ''None''))]"
    by (simp add: parse_paper_details_def Let_def)
  have has_text: "absent_or_text t root \<Longrightarrow> \<exists>s. descendant_text t root = Some s" for t
    by (auto simp: absent_or_text_def descendant_text_def split: option.splits)
  show ?thesis
    unfolding r using has_text [of "''PMID''"] has_text [of "''ArticleTitle''"]
    by (simp add: field_names_def)
qed


theorem parsed_record_fields_witness:
  "parse_paper_details sorted_list_of_set (Some sample_record) = Inr sample_parsed
   \<and> map fst sample_parsed = field_names
   \<and> absent_or_text ''PMID'' sample_record
   \<and> absent_or_text ''ArticleTitle'' sample_record
   \<and> map_of sample_parsed ''PubmedID'' = Some (Some ''123'')
   \<and> map_of sample_parsed ''Title'' = Some (Some ''A study'')"
  using parsed_record_fields [OF parse_sample_record] parse_sample_record
  by (simp add: sample_parsed_def sample_record_def absent_or_text_def tree_defs)

text \<open>The record whose \<open>PMID\<close> node has no text: six fields, the first of them \<open>None\<close>.\<close>

theorem textless_pmid_is_None:
  "parse_paper_details sorted_list_of_set (Some textless_pmid_record) =
       Inr [(''PubmedID'', None), (''Title'', Some ''N/A''),
            (''Publication Date'', Some ''N/A''),
            (''Non-academic Author(s)'', Some ''None''),
            (''Company Affiliation(s)'', Some ''None''),
            (''Corresponding Author Email'', Some ''None'')]"
  by (simp add: textless_pmid_record_def parse_paper_details_def publication_date_def
        tree_defs author_defs)

text \<open>
  Claim C3 (independent classifications). When the loop over the authors of a record
  returns, the non-academic list holds, in document order, the names of exactly the
  authors whose affiliation contains none of the academic keywords, and the company set
  holds exactly the affiliations that contain a company keyword. Hence the affiliation of
  an author that contains both \<open>University\<close> and \<open>Pharma\<close> is in the company set while
  the author is not counted as non-academic.
\<close>
theorem author_classification:
  assumes "parse_authors root = Inr vars"
  shows "non_academic_authors vars =
           map author_name (filter spec_non_academic (findall_descendants ''Author'' root))
    \<and> company_affiliations vars = (\<Union>a\<in>set (findall_descendants ''Author'' root). spec_company a)
    \<and> (\<forall>a\<in>set (findall_descendants ''Author'' root). \<forall>s.
          author_affiliation a = Some s \<and> sublist ''University'' s \<and> sublist ''Pharma'' s \<longrightarrow>
          \<not> spec_non_academic a \<and> s \<in> company_affiliations vars)"
proof -
  let ?authors = "findall_descendants ''Author'' root"
  from assms have loop: "author_loop ?authors initial_vars = Inr vars"
    by (simp add: parse_authors_def)
  from author_loop_classes [OF loop]
  have lists: "non_academic_authors vars = map author_name (filter spec_non_academic ?authors)"
    and sets: "company_affiliations vars = (\<Union>a\<in>set ?authors. spec_company a)"
    by (simp_all add: initial_vars_def)
  have both: "\<not> spec_non_academic a \<and> s \<in> company_affiliations vars"
    if "a \<in> set ?authors" "author_affiliation a = Some s"
      "sublist ''University'' s" "sublist ''Pharma'' s" for a s
  proof -
    from that have "contains_any academic_keywords s" "contains_any company_keywords s"
      by (auto simp: contains_any_def academic_keywords_def company_keywords_def)
    with that(2) have "\<not> spec_non_academic a" "s \<in> spec_company a"
      by (simp_all add: spec_non_academic_def spec_company_def)
    with that(1) show ?thesis unfolding sets by blast
  qed
  from lists sets both show ?thesis by blast
qed

theorem author_classification_witness:
  "parse_authors sample_record = Inr sample_vars
   \<and> non_academic_authors sample_vars =
       map author_name (filter spec_non_academic (findall_descendants ''Author'' sample_record))
   \<and> non_academic_authors sample_vars = [''Jane Doe'', ''N/A Poe'']
   \<and> ''University of Pharma, rick@u.edu'' \<in> company_affiliations sample_vars"
proof -
  note classes = author_classification [OF parse_authors_sample]
  have "non_academic_authors sample_vars = [''Jane Doe'', ''N/A Poe'']"
    and "''University of Pharma, rick@u.edu'' \<in> company_affiliations sample_vars"
    by (simp_all add: sample_vars_def)
  with parse_authors_sample conjunct1 [OF classes] show ?thesis by blast
qed

text \<open>
  Claim C4 (first email wins). The email field of a parsed record is the first
  whitespace-separated token with an \<open>@\<close> among the affiliations of its authors, read in
  document order, and \<open>None\<close> spelled out when there is no such token.
\<close>
theorem first_email_wins:
  assumes "parse_paper_details set_order (Some root) = Inr r"
  shows "map_of r ''Corresponding Author Email'' =
           Some (Some (case candidate_emails (findall_descendants ''Author'' root) of
                         [] \<Rightarrow> ''None''
                       | e # _ \<Rightarrow> e))"
proof -
  let ?authors = "findall_descendants ''Author'' root"
  obtain vars where vars: "parse_authors root = Inr vars"
    using assms by (auto simp: parse_paper_details_def Let_def split: sum.splits)
  with assms have field: "map_of r ''Corresponding Author Email'' =
      Some (Some (if truthy (corresponding_author_email vars)
                  then fstr (corresponding_author_email vars) else ''None''))"
    by (auto simp: parse_paper_details_def Let_def)
  from vars have loop: "author_loop ?authors initial_vars = Inr vars"
    by (simp add: parse_authors_def)
  have mail: "corresponding_author_email vars =
      (case candidate_emails ?authors of [] \<Rightarrow> None | e # _ \<Rightarrow> Some e)"
    using author_loop_email [OF loop] by (simp add: initial_vars_def)
  show ?thesis
  proof (cases "candidate_emails ?authors")
    case Nil
    with field mail show ?thesis by (simp add: truthy_def)
  next
    case (Cons e es)
    then have "e \<in> set (candidate_emails ?authors)" by simp
    then have "e \<noteq> []"
      by (auto simp: candidate_emails_def dest: email_tokens_nonempty split: option.splits)
    with Cons field mail show ?thesis by (simp add: truthy_def fstr_def)
  qed
qed

theorem first_email_wins_witness:
  "parse_paper_details sorted_list_of_set (Some sample_record) = Inr sample_parsed
   \<and> candidate_emails (findall_descendants ''Author'' sample_record) =
       [''jane@acme.com'', ''rick@u.edu'']
   \<and> map_of sample_parsed ''Corresponding Author Email'' = Some (Some ''jane@acme.com'')"
  using first_email_wins [OF parse_sample_record] parse_sample_record
  by (simp add: sample_parsed_def sample_record_def candidate_emails_def email_tokens_def
        tree_defs author_affiliation_def str_split_def isspace_def)

text \<open>
  Claim C9 (the parse is not total). When an author of the record has a first
  \<open>Affiliation\<close> node without text, the affiliation is \<open>None\<close>, the email guard skips
  it, \<open>is_academic\<close> raises \<open>TypeError\<close>, and so does \<open>parse_paper_details\<close>.
\<close>
theorem textless_affiliation_raises:
  assumes "author \<in> set (findall_descendants ''Author'' root)"
    and "find_descendant ''Affiliation'' author = Some aff"
    and "el_text aff = None"
  shows "author_affiliation author = None
    \<and> author_email (author_affiliation author) = None
    \<and> is_academic (author_affiliation author) = Inl TypeError
    \<and> parse_paper_details set_order (Some root) = Inl TypeError"
proof -
  from assms(2,3) have none: "author_affiliation author = None"
    by (simp add: author_affiliation_def descendant_text_def)
  from author_loop_None [OF assms(1) none]
  have "parse_authors root = Inl TypeError" by (simp add: parse_authors_def)
  then have "parse_paper_details set_order (Some root) = Inl TypeError"
    by (simp add: parse_paper_details_def Let_def)
  with none show ?thesis by (simp add: author_email_def truthy_def is_academic_def)
qed

theorem textless_affiliation_raises_witness:
  "Element ''Author'' None
     [Element ''LastName'' (Some ''Doe'') [],
      Element ''AffiliationInfo'' None [Element ''Affiliation'' None []]]
     \<in> set (findall_descendants ''Author'' textless_affiliation_record)
   \<and> find_descendant ''Affiliation''
       (Element ''Author'' None
          [Element ''LastName'' (Some ''Doe'') [],
           Element ''AffiliationInfo'' None [Element ''Affiliation'' None []]])
     = Some (Element ''Affiliation'' None [])
   \<and> parse_paper_details sorted_list_of_set (Some textless_affiliation_record) = Inl TypeError"
proof -
  let ?author = "Element ''Author'' None
     [Element ''LastName'' (Some ''Doe'') [],
      Element ''AffiliationInfo'' None [Element ''Affiliation'' None []]]"
  have a: "?author \<in> set (findall_descendants ''Author'' textless_affiliation_record)"
    by (simp add: textless_affiliation_record_def tree_defs)
  have b: "find_descendant ''Affiliation'' ?author = Some (Element ''Affiliation'' None [])"
    by (simp add: tree_defs)
  have c: "el_text (Element ''Affiliation'' None []) = None" by simp
  from textless_affiliation_raises [OF a b c, of sorted_list_of_set] a b show ?thesis by simp
qed

text \<open>
  Claim C10 (author without affiliation). For an author node with no \<open>Affiliation\<close> below
  it the affiliation is \<open>N/A\<close>, which neither classifier accepts; the pass of the loop
  appends the author's name to the non-academic list and leaves the company set and the
  email as they were.
\<close>
theorem author_without_affiliation:
  assumes "find_descendant ''Affiliation'' author = None"
  shows "author_affiliation author = Some ''N/A''
    \<and> is_academic (Some ''N/A'') = Inr False
    \<and> is_company (Some ''N/A'') = Inr False
    \<and> process_author author vars =
        Inr (vars\<lparr>non_academic_authors := non_academic_authors vars @ [author_name author]\<rparr>)"
proof -
  from assms have aff: "author_affiliation author = Some ''N/A''"
    by (simp add: author_affiliation_def descendant_text_def)
  have ac: "is_academic (Some ''N/A'') = Inr False"
    by (simp add: is_academic_def academic_keywords_def)
  have co: "is_company (Some ''N/A'') = Inr False"
    by (simp add: is_company_def company_keywords_def)
  have em: "author_email (Some ''N/A'') = None"
    by (simp add: author_email_def truthy_def str_split_def isspace_def)
  from aff ac co em show ?thesis
    by (simp add: process_author_def Let_def truthy_def)
qed

theorem author_without_affiliation_witness:
  "find_descendant ''Affiliation'' (Element ''Author'' None [Element ''LastName'' (Some ''Poe'') []]) = None
   \<and> process_author (Element ''Author'' None [Element ''LastName'' (Some ''Poe'') []]) initial_vars =
       Inr \<lparr>non_academic_authors = [''N/A Poe''], company_affiliations = {},
             corresponding_author_email = None\<rparr>"
proof -
  have h: "find_descendant ''Affiliation''
             (Element ''Author'' None [Element ''LastName'' (Some ''Poe'') []]) = None"
    by (simp add: tree_defs)
  from author_without_affiliation [OF h, of initial_vars] h show ?thesis
    by (simp add: initial_vars_def author_name_def child_text_def find_child_def fstr_def)
qed

declare get_tasks.simps [simp del]






lemma mapstar_all:
  "\<forall>x\<in>set xs. \<exists>r. f x = Inr r \<Longrightarrow> mapstar f xs = Inr (map (\<lambda>x. projr (f x)) xs)"
  by (induction xs) auto

lemma chunksize_pos: "0 < n \<Longrightarrow> 0 < chunksize n"
  unfolding chunksize_def by presburger

lemma concat_get_tasks: "0 < n \<or> xs = [] \<Longrightarrow> concat (get_tasks n xs) = xs"
proof (induction n xs rule: get_tasks.induct)
  case (1 n xs)
  show ?case
  proof (cases "xs = []")
    case True
    then show ?thesis by (simp add: get_tasks.simps)
  next
    case False
    with 1 have "0 < n" by simp
    with False 1 show ?thesis by (subst get_tasks.simps) simp
  qed
qed

lemma get_tasks_subset: "c \<in> set (get_tasks n xs) \<Longrightarrow> set c \<subseteq> set xs"
proof (induction n xs rule: get_tasks.induct)
  case (1 n xs)
  show ?case
  proof (cases "n = 0 \<or> xs = []")
    case True
    with 1(2) show ?thesis by (simp add: get_tasks.simps)
  next
    case False
    with 1(2) have "c = take n xs \<or> c \<in> set (get_tasks n (drop n xs))"
      by (subst (asm) get_tasks.simps) simp
    then show ?thesis
    proof
      assume "c = take n xs"
      then show ?thesis by (simp add: set_take_subset)
    next
      assume "c \<in> set (get_tasks n (drop n xs))"
      with 1(1) False have "set c \<subseteq> set (drop n xs)" by simp
      then show ?thesis using set_drop_subset [of n xs] by blast
    qed
  qed
qed

lemma failures_all_Inr: "failures (map (\<lambda>c. Inr (g c)) cs) = []"
  by (induction cs) (simp_all add: failures_def map_filter_simps)

lemma successes_all_Inr: "successes (map (\<lambda>c. Inr (g c)) cs) = map g cs"
  by (induction cs) (simp_all add: successes_def map_filter_simps)

lemma fetch_details_concurrently_all:
  assumes "\<forall>x\<in>set pubmed_ids. \<exists>r. fetch x = Inr r"
  shows "fetch_details_concurrently sched fetch pubmed_ids =
           Inr (map (\<lambda>x. projr (fetch x)) pubmed_ids)"
proof -
  let ?n = "chunksize (length pubmed_ids)"
  let ?batches = "get_tasks ?n pubmed_ids"
  let ?g = "map (\<lambda>x. projr (fetch x))"
  have "mapstar fetch c = Inr (?g c)" if "c \<in> set ?batches" for c
    using that assms get_tasks_subset [of c ?n pubmed_ids] by (intro mapstar_all) blast
  then have outcomes: "map (mapstar fetch) ?batches = map (\<lambda>c. Inr (?g c)) ?batches"
    by simp
  have "0 < ?n \<or> pubmed_ids = []" using chunksize_pos [of "length pubmed_ids"] by auto
  then have "concat ?batches = pubmed_ids" by (rule concat_get_tasks)
  then have "concat (map ?g ?batches) = ?g pubmed_ids"
    by (metis map_concat)
  then show ?thesis
    by (simp add: fetch_details_concurrently_def Let_def outcomes failures_all_Inr
          successes_all_Inr)
qed

text \<open>
  Claim C8 (results follow the input order). When the fetch-and-parse function returns a
  record for every identifier, \<open>fetch_details_concurrently\<close> returns a list of the same
  length whose entry \<open>i\<close> is the record of identifier \<open>i\<close>, whatever the scheduling.
\<close>

theorem results_follow_input_order:
  assumes "\<forall>x\<in>set pubmed_ids. \<exists>r. fetch x = Inr r"
  shows "\<exists>results. fetch_details_concurrently sched fetch pubmed_ids = Inr results
           \<and> length results = length pubmed_ids
           \<and> (\<forall>i<length pubmed_ids. fetch (pubmed_ids ! i) = Inr (results ! i))"
proof -
  have "fetch (pubmed_ids ! i) = Inr (projr (fetch (pubmed_ids ! i)))" if "i < length pubmed_ids" for i
    using assms that by (metis nth_mem sum.sel(2))
  then show ?thesis
    by (simp add: fetch_details_concurrently_all [OF assms])
qed

theorem results_follow_input_order_witness:
  "\<forall>sched. fetch_details_concurrently sched title_stub [''1'', ''2'', ''3''] =
      Inr [[(''Title'', Some ''T1'')], [(''Title'', Some ''T2'')], [(''Title'', Some ''T3'')]]"
proof
  fix sched
  have ok: "\<forall>x\<in>set [''1'', ''2'', ''3'']. \<exists>r. title_stub x = Inr r"
    by (simp add: title_stub_def)
  from results_follow_input_order [OF ok, of sched]
  obtain results where run: "fetch_details_concurrently sched title_stub [''1'', ''2'', ''3''] = Inr results"
    and len: "length results = 3"
    and nth: "\<forall>i<3. title_stub ([''1'', ''2'', ''3''] ! i) = Inr (results ! i)"
    by auto
  from len obtain a b c where shape: "results = [a, b, c]"
    by (auto simp: numeral_3_eq_3 length_Suc_conv)
  from nth [rule_format, of 0] nth [rule_format, of 1] nth [rule_format, of 2]
  have "results = [[(''Title'', Some ''T1'')], [(''Title'', Some ''T2'')], [(''Title'', Some ''T3'')]]"
    unfolding shape by (simp add: title_stub_def)
  with run show "fetch_details_concurrently sched title_stub [''1'', ''2'', ''3''] =
      Inr [[(''Title'', Some ''T1'')], [(''Title'', Some ''T2'')], [(''Title'', Some ''T3'')]]"
    by simp
qed











lemma sample_row_cells: "csv_cells field_names sample_parsed = sample_row"
  by (simp add: csv_cells_def field_names_def sample_parsed_def sample_row_def)



lemma sample_search: "fetch_paper_ids sample_service ''cancer'' 2 = Inr (JArray [JString ''1'', JString ''2''])"
  by (simp add: fetch_paper_ids_def sample_service_def raise_for_status_def dict_get_def
        search_reply_def)

lemma failing_search: "fetch_paper_ids failing_service ''cancer'' 2 = Inr (JArray [JString ''1'', JString ''2''])"
  by (simp add: fetch_paper_ids_def failing_service_def raise_for_status_def dict_get_def
        search_reply_def)

lemma sample_fetch:
  "fetch_paper_details sample_service sorted_list_of_set pubmed_id = Inr sample_parsed"
  by (simp add: fetch_paper_details_def sample_service_def raise_for_status_def
        parse_sample_record)

lemma sample_batch:
  "fetch_details_concurrently sched (fetch_paper_details sample_service sorted_list_of_set)
     [JString ''1'', JString ''2''] = Inr [sample_parsed, sample_parsed]"
  by (simp add: fetch_details_concurrently_def chunksize_def get_tasks.simps sample_fetch
        failures_def successes_def map_filter_simps Let_def)

lemma failing_batch:
  "fetch_details_concurrently 0 (fetch_paper_details failing_service sorted_list_of_set)
     [JString ''1'', JString ''2''] = Inl (HTTPError 500)"
  by (simp add: fetch_details_concurrently_def chunksize_def get_tasks.simps
        fetch_paper_details_def failing_service_def raise_for_status_def
        failures_def successes_def map_filter_simps Let_def)

lemma sample_columns: "columns [sample_parsed, sample_parsed] = field_names"
  by (simp add: columns_def sample_parsed_def field_names_def)

lemma sample_elements:
  "py_elements (JArray [JString ''1'', JString ''2'']) = Inr [JString ''1'', JString ''2'']"
  by (simp add: py_elements_def)

text \<open>
  Claim C7 (the handler catches every \<open>Exception\<close>). When the body of the \<open>try\<close> raises
  an exception that derives from \<open>Exception\<close>, the handler logs it and prints it once,
  \<open>main\<close> returns, the process exits with 0, and the files are as they were before the
  run; an exception that does not derive from \<open>Exception\<close> passes through the handler.
  The body raises what the search raises, what the fetch and parse raises, and
  \<open>OSError\<close> when the output path cannot be opened; it writes only when every earlier
  stage has returned, and then the output file gets the header, if it is new, and one
  row per record.
\<close>
theorem main_catches_Exception:
  "(\<forall>e. main_try net set_order sched a fs = Inl e \<and> is_Exception e \<longrightarrow>
        events (main net set_order sched a fs) = [Logged e, Printed e]
        \<and> uncaught (main net set_order sched a fs) = None
        \<and> exit_code (main net set_order sched a fs) = Exit_zero
        \<and> files (main net set_order sched a fs) = fs)
   \<and> (\<forall>e. main_try net set_order sched a fs = Inl e \<and> \<not> is_Exception e \<longrightarrow>
        events (main net set_order sched a fs) = []
        \<and> uncaught (main net set_order sched a fs) = Some e
        \<and> files (main net set_order sched a fs) = fs)
   \<and> (\<forall>e. fetch_paper_ids net (args_query a) (args_max a) = Inl e \<longrightarrow>
        main_try net set_order sched a fs = Inl e)
   \<and> (\<forall>e paper_ids. fetch_paper_ids net (args_query a) (args_max a) = Inr paper_ids
        \<and> py_elements paper_ids = Inl e \<longrightarrow>
        main_try net set_order sched a fs = Inl e)
   \<and> (\<forall>e paper_ids ids. fetch_paper_ids net (args_query a) (args_max a) = Inr paper_ids
        \<and> py_elements paper_ids = Inr ids
        \<and> fetch_details_concurrently sched (fetch_paper_details net set_order) ids = Inl e \<longrightarrow>
        main_try net set_order sched a fs = Inl e)
   \<and> (\<forall>paper_ids ids results. fetch_paper_ids net (args_query a) (args_max a) = Inr paper_ids
        \<and> py_elements paper_ids = Inr ids
        \<and> fetch_details_concurrently sched (fetch_paper_details net set_order) ids = Inr results \<longrightarrow>
        (\<forall>there. fs (args_file a) = Some (Unwritable there) \<longrightarrow>
           main_try net set_order sched a fs = Inl OSError
           \<and> events (main net set_order sched a fs) = [Logged OSError, Printed OSError]
           \<and> files (main net set_order sched a fs) = fs)
        \<and> (fs (args_file a) = None \<longrightarrow>
           events (main net set_order sched a fs) = []
           \<and> uncaught (main net set_order sched a fs) = None
           \<and> files (main net set_order sched a fs) =
               fs(args_file a \<mapsto> File (columns results # map (csv_cells (columns results)) results)))
        \<and> (\<forall>rows. fs (args_file a) = Some (File rows) \<longrightarrow>
           events (main net set_order sched a fs) = []
           \<and> uncaught (main net set_order sched a fs) = None
           \<and> files (main net set_order sched a fs) =
               fs(args_file a \<mapsto> File (rows @ map (csv_cells (columns results)) results))))"
proof -
  have caught: "events (main net set_order sched a fs) = [Logged e, Printed e]
      \<and> uncaught (main net set_order sched a fs) = None
      \<and> exit_code (main net set_order sched a fs) = Exit_zero
      \<and> files (main net set_order sched a fs) = fs"
    if "main_try net set_order sched a fs = Inl e" "is_Exception e" for e
    using that by (simp add: main_def exit_code_def)
  have passed: "events (main net set_order sched a fs) = []
      \<and> uncaught (main net set_order sched a fs) = Some e
      \<and> files (main net set_order sched a fs) = fs"
    if "main_try net set_order sched a fs = Inl e" "\<not> is_Exception e" for e
    using that by (simp add: main_def)
  have search: "main_try net set_order sched a fs = Inl e"
    if "fetch_paper_ids net (args_query a) (args_max a) = Inl e" for e
    using that by (simp add: main_try_def)
  have sized: "main_try net set_order sched a fs = Inl e"
    if "fetch_paper_ids net (args_query a) (args_max a) = Inr paper_ids"
      "py_elements paper_ids = Inl e" for e paper_ids
    using that by (simp add: main_try_def)
  have fetch: "main_try net set_order sched a fs = Inl e"
    if "fetch_paper_ids net (args_query a) (args_max a) = Inr paper_ids"
      "py_elements paper_ids = Inr ids"
      "fetch_details_concurrently sched (fetch_paper_details net set_order) ids = Inl e"
    for e paper_ids ids
    using that by (simp add: main_try_def)
  have written: "main_try net set_order sched a fs = write_csv fs (args_file a) results"
    if "fetch_paper_ids net (args_query a) (args_max a) = Inr paper_ids"
      "py_elements paper_ids = Inr ids"
      "fetch_details_concurrently sched (fetch_paper_details net set_order) ids = Inr results"
    for paper_ids ids results
    using that by (simp add: main_try_def)
  have blocked: "write_csv fs (args_file a) results = Inl OSError"
    if "fs (args_file a) = Some (Unwritable there)" for there results
    using that by (simp add: write_csv_def to_csv_def Let_def)
  have created: "write_csv fs (args_file a) results =
      Inr (fs(args_file a \<mapsto> File (columns results # map (csv_cells (columns results)) results)))"
    if "fs (args_file a) = None" for results
    using that by (simp add: write_csv_def to_csv_def file_exists_def Let_def)
  have appended: "write_csv fs (args_file a) results =
      Inr (fs(args_file a \<mapsto> File (rows @ map (csv_cells (columns results)) results)))"
    if "fs (args_file a) = Some (File rows)" for rows results
    using that by (simp add: write_csv_def to_csv_def file_exists_def Let_def)
  have outcome: "(\<forall>there. fs (args_file a) = Some (Unwritable there) \<longrightarrow>
           main_try net set_order sched a fs = Inl OSError
           \<and> events (main net set_order sched a fs) = [Logged OSError, Printed OSError]
           \<and> files (main net set_order sched a fs) = fs)
        \<and> (fs (args_file a) = None \<longrightarrow>
           events (main net set_order sched a fs) = []
           \<and> uncaught (main net set_order sched a fs) = None
           \<and> files (main net set_order sched a fs) =
               fs(args_file a \<mapsto> File (columns results # map (csv_cells (columns results)) results)))
        \<and> (\<forall>rows. fs (args_file a) = Some (File rows) \<longrightarrow>
           events (main net set_order sched a fs) = []
           \<and> uncaught (main net set_order sched a fs) = None
           \<and> files (main net set_order sched a fs) =
               fs(args_file a \<mapsto> File (rows @ map (csv_cells (columns results)) results)))"
    if "fetch_paper_ids net (args_query a) (args_max a) = Inr paper_ids"
      "py_elements paper_ids = Inr ids"
      "fetch_details_concurrently sched (fetch_paper_details net set_order) ids = Inr results"
    for paper_ids ids results
    using written [OF that] blocked [of _ results] created [of results] appended [of _ results]
    by (auto simp: main_def)
  from caught passed search sized fetch outcome show ?thesis by blast
qed


theorem main_catches_Exception_witness:
  "main_try failing_service sorted_list_of_set 0 sample_args Map.empty = Inl (HTTPError 500)
   \<and> events (main failing_service sorted_list_of_set 0 sample_args Map.empty) =
       [Logged (HTTPError 500), Printed (HTTPError 500)]
   \<and> exit_code (main failing_service sorted_list_of_set 0 sample_args Map.empty) = Exit_zero
   \<and> files (main failing_service sorted_list_of_set 0 sample_args Map.empty) = Map.empty
   \<and> events (main sample_service sorted_list_of_set 0 sample_args
               (Map.empty(''results.csv'' \<mapsto> Unwritable True))) =
       [Logged OSError, Printed OSError]
   \<and> files (main sample_service sorted_list_of_set 0 sample_args
              (Map.empty(''results.csv'' \<mapsto> Unwritable True))) =
       Map.empty(''results.csv'' \<mapsto> Unwritable True)
   \<and> files (main sample_service sorted_list_of_set 0 sample_args Map.empty) =
       Map.empty(''results.csv'' \<mapsto> File [field_names, sample_row, sample_row])"
proof -
  let ?ids = "[JString ''1'', JString ''2'']"
  let ?blocked = "Map.empty(''results.csv'' \<mapsto> Unwritable True) :: filesystem"
  have q: "args_query sample_args = ''cancer''" "args_max sample_args = 2"
    "args_file sample_args = ''results.csv''"
    by (simp_all add: sample_args_def)
  note failing = main_catches_Exception [of failing_service sorted_list_of_set 0 sample_args Map.empty]
  note blocked = main_catches_Exception [of sample_service sorted_list_of_set 0 sample_args ?blocked]
  note fresh = main_catches_Exception [of sample_service sorted_list_of_set 0 sample_args Map.empty]
  have raised: "main_try failing_service sorted_list_of_set 0 sample_args Map.empty = Inl (HTTPError 500)"
    using failing failing_search sample_elements failing_batch unfolding q by blast
  have "is_Exception (HTTPError 500)" by simp
  with raised failing
  have one: "events (main failing_service sorted_list_of_set 0 sample_args Map.empty) =
        [Logged (HTTPError 500), Printed (HTTPError 500)]
      \<and> exit_code (main failing_service sorted_list_of_set 0 sample_args Map.empty) = Exit_zero
      \<and> files (main failing_service sorted_list_of_set 0 sample_args Map.empty) = Map.empty"
    by blast
  have "?blocked ''results.csv'' = Some (Unwritable True)" by simp
  with blocked sample_search sample_elements sample_batch [of 0]
  have two: "events (main sample_service sorted_list_of_set 0 sample_args ?blocked) =
        [Logged OSError, Printed OSError]
      \<and> files (main sample_service sorted_list_of_set 0 sample_args ?blocked) = ?blocked"
    unfolding q by blast
  have "(Map.empty :: filesystem) ''results.csv'' = None" by simp
  with fresh sample_search sample_elements sample_batch [of 0]
  have "files (main sample_service sorted_list_of_set 0 sample_args Map.empty) =
      Map.empty(''results.csv'' \<mapsto>
        File (columns [sample_parsed, sample_parsed]
                # map (csv_cells (columns [sample_parsed, sample_parsed]))
                    [sample_parsed, sample_parsed]))"
    unfolding q by blast
  then have three: "files (main sample_service sorted_list_of_set 0 sample_args Map.empty) =
      Map.empty(''results.csv'' \<mapsto> File [field_names, sample_row, sample_row])"
    by (simp add: sample_columns sample_row_cells)
  from raised one two three show ?thesis by blast
qed

text \<open>
  An interrupt of the user during the search leaves \<open>main\<close> uncaught: nothing is printed
  and the process does not exit with 0.
\<close>

theorem main_interrupt_uncaught:
  "uncaught (main interrupted_service sorted_list_of_set 0 sample_args Map.empty) =
     Some KeyboardInterrupt
   \<and> events (main interrupted_service sorted_list_of_set 0 sample_args Map.empty) = []
   \<and> exit_code (main interrupted_service sorted_list_of_set 0 sample_args Map.empty) =
       Exit_nonzero"
  by (simp add: main_def main_try_def fetch_paper_ids_def interrupted_service_def exit_code_def)

end
